theory Spec2Isabelle
  imports Main "HOL-Library.Sublist"
begin

section \<open>Python values\<close>

text \<open>
  The handler of \<^verbatim>\<open>pdf_converter.py\<close> builds its results as Python dictionaries and hands
  them to \<^verbatim>\<open>json.dumps\<close>. A Python value is modelled by \<open>pyval\<close>: a dictionary is an
  association list in insertion order, a \<^verbatim>\<open>str\<close> is a \<open>string\<close> (so the model covers the code
  points below 256, and \<open>length\<close> is Python's \<^verbatim>\<open>len\<close>), an \<^verbatim>\<open>int\<close> is an unbounded \<open>int\<close>.
  The program never builds a float.
\<close>

datatype pyval =
    PNone
  | PBool bool
  | PInt int
  | PStr string
  | PList "pyval list"
  | PDict "(string \<times> pyval) list"

text \<open>
  A raised exception is a value: the name of its class and \<^verbatim>\<open>str(e)\<close>. Every fault of the
  model is an instance of Python's \<^verbatim>\<open>Exception\<close>, the class that the two
  \<^verbatim>\<open>except Exception as e\<close> clauses of the source catch.
\<close>

datatype exn = Exception (exc_class: string) (str_of: string)

type_synonym bytes = string

type_synonym 'a result = "exn + 'a"

section \<open>The collaborators of the program\<close>

text \<open>
  A page object of the PDF reader: \<^verbatim>\<open>page.extract_text()\<close> raises, or returns a string or
  \<^verbatim>\<open>None\<close> (the source guards both the empty and the undefined text with \<^verbatim>\<open>if text\<close>).
\<close>

type_synonym page = "string option result"

text \<open>The file system: the files that exist, with their contents.\<close>

type_synonym filesystem = "string \<rightharpoonup> bytes"

section \<open>Requests and responses\<close>

text \<open>
  A request as the handler sees it: \<^verbatim>\<open>self.command\<close>, \<^verbatim>\<open>self.path\<close>, the header lookup
  \<^verbatim>\<open>self.headers[name]\<close> (\<open>None\<close> for a header that was not sent) and the body behind
  \<^verbatim>\<open>self.rfile\<close>.
\<close>

record request =
  command :: string
  path :: string
  headers :: "string \<rightharpoonup> string"
  rfile :: bytes

text \<open>
  One part of a parsed multipart form, an item of \<^verbatim>\<open>cgi.FieldStorage\<close>: the name of its
  field, its \<^verbatim>\<open>filename\<close> attribute (\<open>None\<close> for a part that is no file) and its
  \<^verbatim>\<open>file\<close> attribute, which is \<^verbatim>\<open>None\<close> for a part that \<^verbatim>\<open>cgi\<close> has parsed into parts of
  its own (a part sent as \<^verbatim>\<open>multipart/mixed\<close>) and else a file object, given here by the
  bytes that its \<^verbatim>\<open>read()\<close> returns.
\<close>

record fileitem =
  field_name :: string
  upload_name :: "string option"
  part_file :: "bytes option"

text \<open>
  A ZIP archive in memory is the sequence of its members, each with the name it is
  stored under and its text; the compression of the text is not modelled.
\<close>

type_synonym archive = "(string \<times> string) list"

text \<open>
  The body written to \<^verbatim>\<open>self.wfile\<close>: nothing, raw bytes, \<^verbatim>\<open>json.dumps(obj).encode()\<close>
  for a value \<open>obj\<close>, the JSON object \<^verbatim>\<open>{success: true, zip_base64: ...}\<close> around the
  bytes of an archive, or the page that \<^verbatim>\<open>send_error\<close> writes. The headers of a response
  are those that the handler sends with \<^verbatim>\<open>send_header\<close>, in that order; the headers
  that the library adds by itself (\<^verbatim>\<open>Server\<close>, \<^verbatim>\<open>Date\<close>, those of an error page) are
  left out.
\<close>

datatype body =
    NoBody
  | BytesBody bytes
  | JsonBody pyval
  | ZipBody archive
  | ErrorPage string

record response =
  status :: nat
  sent_headers :: "(string \<times> string) list"
  sent_body :: body

text \<open>
  What the source calls and does not define is a field of the environment:
  \<^item> \<open>NamedTemporaryFile\<close>: \<^verbatim>\<open>tempfile.NamedTemporaryFile(suffix='.pdf', delete=False)\<close>
    raises, or creates an empty file and gives its name;
  \<^item> \<open>write_fault\<close>: \<^verbatim>\<open>temp_pdf.write(file_data)\<close> succeeds (\<open>None\<close>), or raises after
    some bytes have reached the file;
  \<^item> \<open>PdfReader\<close>: PyPDF2's reader on the bytes of a file raises, or yields the pages;
  \<^item> \<open>unlink_fault\<close>: \<^verbatim>\<open>os.unlink(path)\<close> succeeds (\<open>None\<close>) or raises;
  \<^item> \<open>parse_header\<close>: the main content type that \<^verbatim>\<open>cgi.parse_header\<close> returns for a
    header line that is a string;
  \<^item> \<open>FieldStorage\<close>: \<^verbatim>\<open>cgi.FieldStorage\<close> on a multipart request raises, or yields the
    parts of the form in the order of the upload;
  \<^item> \<open>read_payload\<close>: the three statements that read a JSON body
    (\<^verbatim>\<open>int(self.headers['Content-Length'])\<close>, \<^verbatim>\<open>self.rfile.read(length).decode('utf-8')\<close>,
    \<^verbatim>\<open>json.loads(post_data)\<close>) raise, or yield the payload;
  \<^item> \<open>static_file\<close>: the inherited \<^verbatim>\<open>SimpleHTTPRequestHandler\<close> methods for a command
    and a path;
  \<^item> \<open>save_fault\<close>: writing the output file of the command-line variant succeeds
    (\<open>None\<close>) or raises;
  \<^item> \<open>writestr\<close>: \<^verbatim>\<open>zipf.writestr(name, text)\<close> of \<^verbatim>\<open>zipfile\<close> raises, or stores a member
    and gives the name that the member is stored under.
\<close>

record env =
  NamedTemporaryFile :: "filesystem \<Rightarrow> string result"
  write_fault :: "bytes \<Rightarrow> (exn \<times> bytes) option"
  PdfReader :: "bytes \<Rightarrow> page list result"
  unlink_fault :: "string \<Rightarrow> exn option"
  parse_header :: "string \<Rightarrow> string"
  FieldStorage :: "request \<Rightarrow> fileitem list result"
  read_payload :: "request \<Rightarrow> pyval result"
  static_file :: "string \<Rightarrow> string \<Rightarrow> response result"
  save_fault :: "string \<Rightarrow> exn option"
  writestr :: "string \<Rightarrow> string \<Rightarrow> string result"

section \<open>Text measures\<close>

text \<open>
  \<^verbatim>\<open>str.split()\<close> without argument splits at runs of whitespace and drops the empty
  pieces. The whitespace code points below 256 are 9 to 13, 28 to 32, 133 and 160.
\<close>

definition isspace :: "char \<Rightarrow> bool" where
  "isspace c = (let n = (of_char c :: nat) in
     (9 \<le> n \<and> n \<le> 13) \<or> (28 \<le> n \<and> n \<le> 32) \<or> n = 133 \<or> n = 160)"

fun split_from :: "string \<Rightarrow> string \<Rightarrow> string list" where
  "split_from cur [] = (if cur = [] then [] else [cur])"
| "split_from cur (c # cs) =
     (if isspace c then (if cur = [] then split_from [] cs else cur # split_from [] cs)
      else split_from (cur @ [c]) cs)"

definition split :: "string \<Rightarrow> string list" where
  "split s = split_from [] s"

text \<open>\<^verbatim>\<open>len(text.split()) if text else 0\<close> and \<^verbatim>\<open>len(text) if text else 0\<close>.\<close>

definition word_count :: "string option \<Rightarrow> int" where
  "word_count text =
     (case text of None \<Rightarrow> 0 | Some t \<Rightarrow> if t = [] then 0 else int (length (split t)))"

definition character_count :: "string option \<Rightarrow> int" where
  "character_count text =
     (case text of None \<Rightarrow> 0 | Some t \<Rightarrow> if t = [] then 0 else int (length t))"

definition content_value :: "string option \<Rightarrow> pyval" where
  "content_value text = (case text of None \<Rightarrow> PNone | Some t \<Rightarrow> PStr t)"

section \<open>The conversion function\<close>

text \<open>The dictionary appended for page \<open>i\<close> of \<^verbatim>\<open>enumerate(pdf.pages)\<close>.\<close>

definition page_record :: "nat \<Rightarrow> string option \<Rightarrow> pyval" where
  "page_record i text = PDict
     [(''page_number'', PInt (int i + 1)),
      (''content'', content_value text),
      (''word_count'', PInt (word_count text)),
      (''character_count'', PInt (character_count text))]"

text \<open>
  The loop \<^verbatim>\<open>for i, page in enumerate(pdf.pages)\<close>: \<open>pages\<close> is the list built so far; the
  first page whose extraction raises ends the loop with that exception.
\<close>

fun extract_pages :: "nat \<Rightarrow> page list \<Rightarrow> pyval list \<Rightarrow> pyval list result" where
  "extract_pages i [] pages = Inr pages"
| "extract_pages i (p # ps) pages =
     (case p of
        Inl e \<Rightarrow> Inl e
      | Inr text \<Rightarrow> extract_pages (Suc i) ps (pages @ [page_record i text]))"

text \<open>\<^verbatim>\<open>PdfReader(path)\<close> followed by the loop: the body of both \<^verbatim>\<open>try\<close> blocks.\<close>

definition read_pages :: "env \<Rightarrow> filesystem \<Rightarrow> string \<Rightarrow> pyval list result" where
  "read_pages env fs pdf_path =
     (case fs pdf_path of
        None \<Rightarrow> Inl (Exception ''FileNotFoundError'' pdf_path)
      | Some contents \<Rightarrow>
          (case PdfReader env contents of
             Inl e \<Rightarrow> Inl e
           | Inr pdf_pages \<Rightarrow> extract_pages 0 pdf_pages []))"

definition pdf_data :: "string \<Rightarrow> pyval list \<Rightarrow> pyval" where
  "pdf_data filename pages = PDict
     [(''filename'', PStr filename),
      (''total_pages'', PInt (int (length pages))),
      (''pages'', PList pages)]"

definition success_outcome :: "string \<Rightarrow> pyval \<Rightarrow> pyval" where
  "success_outcome filename d = PDict
     [(''filename'', PStr filename), (''success'', PBool True), (''data'', d)]"

definition failure_outcome :: "string \<Rightarrow> exn \<Rightarrow> pyval" where
  "failure_outcome filename e = PDict
     [(''filename'', PStr filename), (''success'', PBool False), (''error'', PStr (str_of e))]"

text \<open>
  The \<^verbatim>\<open>finally\<close> clause: \<^verbatim>\<open>os.unlink\<close> inside a bare \<^verbatim>\<open>try/except: pass\<close>.
\<close>

definition cleanup :: "env \<Rightarrow> filesystem \<Rightarrow> string \<Rightarrow> filesystem" where
  "cleanup env fs temp_pdf_path =
     (case unlink_fault env temp_pdf_path of
        Some e \<Rightarrow> fs
      | None \<Rightarrow> fs(temp_pdf_path := None))"

text \<open>
  \<^verbatim>\<open>process_pdf(file_data, filename)\<close>. The \<^verbatim>\<open>with\<close> block that creates and writes the
  temporary file comes before the \<^verbatim>\<open>try\<close>: an exception there leaves the function at once.
  The result is the returned dictionary or the raised exception, with the file system
  after the call.
\<close>

definition process_pdf ::
    "env \<Rightarrow> filesystem \<Rightarrow> bytes \<Rightarrow> string \<Rightarrow> pyval result \<times> filesystem" where
  "process_pdf env fs file_data filename =
     (case NamedTemporaryFile env fs of
        Inl e \<Rightarrow> (Inl e, fs)
      | Inr temp_pdf_path \<Rightarrow>
          (case write_fault env file_data of
             Some (e, written) \<Rightarrow> (Inl e, fs(temp_pdf_path \<mapsto> written))
           | None \<Rightarrow>
               (let fs1 = fs(temp_pdf_path \<mapsto> file_data);
                    outcome =
                      (case read_pages env fs1 temp_pdf_path of
                         Inr pages \<Rightarrow> success_outcome filename (pdf_data filename pages)
                       | Inl e \<Rightarrow> failure_outcome filename e)
                in (Inr outcome, cleanup env fs1 temp_pdf_path))))"

section \<open>JSON text\<close>

text \<open>
  \<^verbatim>\<open>json.dumps(obj, indent=2)\<close> of the standard library, on the values of \<open>pyval\<close>.
  A string is written between double quotes; every character outside the range from
  space to tilde, the double quote and the backslash are escaped
  (\<^verbatim>\<open>ensure_ascii\<close> is left at its default).
\<close>

definition hexdigit :: "nat \<Rightarrow> char" where
  "hexdigit d = ''0123456789abcdef'' ! (d mod 16)"

definition escape_char :: "char \<Rightarrow> string" where
  "escape_char c =
     (if c = CHR 0x22 then [CHR 0x5C, CHR 0x22]
      else if c = CHR 0x5C then [CHR 0x5C, CHR 0x5C]
      else if c = CHR 0x0A then [CHR 0x5C, CHR ''n'']
      else if c = CHR 0x0D then [CHR 0x5C, CHR ''r'']
      else if c = CHR 0x09 then [CHR 0x5C, CHR ''t'']
      else if c = CHR 0x08 then [CHR 0x5C, CHR ''b'']
      else if c = CHR 0x0C then [CHR 0x5C, CHR ''f'']
      else if 32 \<le> (of_char c :: nat) \<and> (of_char c :: nat) \<le> 126 then [c]
      else [CHR 0x5C, CHR ''u'', CHR ''0'', CHR ''0'',
            hexdigit (of_char c div 16), hexdigit (of_char c mod 16)])"

definition encode_basestring_ascii :: "string \<Rightarrow> string" where
  "encode_basestring_ascii s = CHR 0x22 # concat (map escape_char s) @ [CHR 0x22]"

text \<open>\<^verbatim>\<open>int.__repr__\<close>: decimal digits, with a minus sign below zero.\<close>

definition digit_char :: "nat \<Rightarrow> char" where
  "digit_char d = ''0123456789'' ! (d mod 10)"

fun repr_nat :: "nat \<Rightarrow> string" where
  "repr_nat n = (if n < 10 then [digit_char n] else repr_nat (n div 10) @ [digit_char n])"

declare repr_nat.simps [simp del]

definition repr_int :: "int \<Rightarrow> string" where
  "repr_int i = (if i < 0 then CHR ''-'' # repr_nat (nat (- i)) else repr_nat (nat i))"

definition newline_indent :: "nat \<Rightarrow> string" where
  "newline_indent level = CHR 0x0A # replicate (2 * level) CHR '' ''"

text \<open>
  The encoder's generators \<^verbatim>\<open>_iterencode\<close>, \<^verbatim>\<open>_iterencode_list\<close> and
  \<^verbatim>\<open>_iterencode_dict\<close>; \<open>level\<close> is \<^verbatim>\<open>_current_indent_level\<close>. The two list functions
  write the items after the first, each behind its separator.
\<close>

fun iterencode :: "nat \<Rightarrow> pyval \<Rightarrow> string"
  and iterencode_list :: "nat \<Rightarrow> pyval list \<Rightarrow> string"
  and iterencode_dict :: "nat \<Rightarrow> (string \<times> pyval) list \<Rightarrow> string" where
  "iterencode level PNone = ''null''"
| "iterencode level (PBool b) = (if b then ''true'' else ''false'')"
| "iterencode level (PInt i) = repr_int i"
| "iterencode level (PStr s) = encode_basestring_ascii s"
| "iterencode level (PList []) = ''[]''"
| "iterencode level (PList (v # vs)) =
     ''['' @ newline_indent (Suc level) @ iterencode (Suc level) v
       @ iterencode_list (Suc level) vs @ newline_indent level @ '']''"
| "iterencode level (PDict []) = ''{}''"
| "iterencode level (PDict ((k, v) # kvs)) =
     ''{'' @ newline_indent (Suc level) @ encode_basestring_ascii k @ '': ''
       @ iterencode (Suc level) v
       @ iterencode_dict (Suc level) kvs @ newline_indent level @ ''}''"
| "iterencode_list level [] = []"
| "iterencode_list level (v # vs) =
     '','' @ newline_indent level @ iterencode level v @ iterencode_list level vs"
| "iterencode_dict level [] = []"
| "iterencode_dict level ((k, v) # kvs) =
     '','' @ newline_indent level @ encode_basestring_ascii k @ '': ''
       @ iterencode level v @ iterencode_dict level kvs"

definition json_dumps :: "pyval \<Rightarrow> string" where
  "json_dumps obj = iterencode 0 obj"

section \<open>The batch packager\<close>

text \<open>
  \<^verbatim>\<open>s.replace(old, new)\<close>: the occurrences of \<open>old\<close> are found from the left and do not
  overlap; with an empty \<open>old\<close>, \<open>new\<close> is put before every character and at the end.
\<close>

fun replace_scan :: "string \<Rightarrow> string \<Rightarrow> string \<Rightarrow> string" where
  "replace_scan old new [] = []"
| "replace_scan old new (c # cs) =
     (if old \<noteq> [] \<and> prefix old (c # cs)
      then new @ replace_scan old new (drop (length old) (c # cs))
      else c # replace_scan old new cs)"

definition str_replace :: "string \<Rightarrow> string \<Rightarrow> string \<Rightarrow> string" where
  "str_replace s old new =
     (if old = [] then new @ concat (map (\<lambda>c. c # new) s) else replace_scan old new s)"

text \<open>
  The operations of a dynamically typed value that the packager and the JSON branch of
  the handler use, with the \<^verbatim>\<open>TypeError\<close>, \<^verbatim>\<open>KeyError\<close> or \<^verbatim>\<open>AttributeError\<close> they raise
  on a value of the wrong type (messages as CPython 3.11 words them).
\<close>

definition type_name :: "pyval \<Rightarrow> string" where
  "type_name v =
     (case v of
        PNone \<Rightarrow> ''NoneType'' | PBool b \<Rightarrow> ''bool'' | PInt i \<Rightarrow> ''int''
      | PStr s \<Rightarrow> ''str'' | PList xs \<Rightarrow> ''list'' | PDict d \<Rightarrow> ''dict'')"

definition quoted :: "string \<Rightarrow> string" where
  "quoted s = CHR 0x27 # s @ [CHR 0x27]"

text \<open>\<^verbatim>\<open>key in obj\<close> for a string \<open>key\<close>.\<close>

definition py_contains :: "string \<Rightarrow> pyval \<Rightarrow> bool result" where
  "py_contains key obj =
     (case obj of
        PDict d \<Rightarrow> Inr (key \<in> set (map fst d))
      | PList xs \<Rightarrow> Inr (PStr key \<in> set xs)
      | PStr s \<Rightarrow> Inr (sublist key s)
      | _ \<Rightarrow> Inl (Exception ''TypeError''
                (''argument of type '' @ quoted (type_name obj) @ '' is not iterable'')))"

text \<open>\<^verbatim>\<open>obj[key]\<close> for a string \<open>key\<close>.\<close>

definition py_getitem :: "pyval \<Rightarrow> string \<Rightarrow> pyval result" where
  "py_getitem obj key =
     (case obj of
        PDict d \<Rightarrow>
          (case map_of d key of
             None \<Rightarrow> Inl (Exception ''KeyError'' (quoted key))
           | Some v \<Rightarrow> Inr v)
      | PList xs \<Rightarrow> Inl (Exception ''TypeError''
                ''list indices must be integers or slices, not str'')
      | PStr s \<Rightarrow> Inl (Exception ''TypeError''
                (''string indices must be integers, not '' @ quoted ''str''))
      | _ \<Rightarrow> Inl (Exception ''TypeError''
                (quoted (type_name obj) @ '' object is not subscriptable'')))"

text \<open>\<^verbatim>\<open>for item in obj\<close>: the items that the loop visits.\<close>

definition py_iter :: "pyval \<Rightarrow> pyval list result" where
  "py_iter obj =
     (case obj of
        PList xs \<Rightarrow> Inr xs
      | PDict d \<Rightarrow> Inr (map (\<lambda>kv. PStr (fst kv)) d)
      | PStr s \<Rightarrow> Inr (map (\<lambda>c. PStr [c]) s)
      | _ \<Rightarrow> Inl (Exception ''TypeError''
                (quoted (type_name obj) @ '' object is not iterable'')))"

text \<open>\<^verbatim>\<open>obj.replace(old, new)\<close>: only a string has the method.\<close>

definition replace_method :: "pyval \<Rightarrow> string \<Rightarrow> string \<Rightarrow> string result" where
  "replace_method obj old new =
     (case obj of
        PStr s \<Rightarrow> Inr (str_replace s old new)
      | _ \<Rightarrow> Inl (Exception ''AttributeError''
                (quoted (type_name obj) @ '' object has no attribute '' @ quoted ''replace'')))"

text \<open>
  The loop of \<^verbatim>\<open>create_zip_package\<close> over the items, \<open>zipf\<close> being the archive written
  so far. An item without \<^verbatim>\<open>filename\<close> or without \<^verbatim>\<open>data\<close> is passed over; an exception
  of \<^verbatim>\<open>writestr\<close> leaves the loop and the function.
\<close>

fun write_items :: "env \<Rightarrow> pyval list \<Rightarrow> archive \<Rightarrow> archive result" where
  "write_items env [] zipf = Inr zipf"
| "write_items env (item # items) zipf =
     (case py_contains ''filename'' item of
        Inl e \<Rightarrow> Inl e
      | Inr has_filename \<Rightarrow>
          if \<not> has_filename then write_items env items zipf
          else
            (case py_contains ''data'' item of
               Inl e \<Rightarrow> Inl e
             | Inr has_data \<Rightarrow>
                 if \<not> has_data then write_items env items zipf
                 else
                   (case py_getitem item ''filename'' of
                      Inl e \<Rightarrow> Inl e
                    | Inr name \<Rightarrow>
                        (case replace_method name ''.pdf'' ''.json'' of
                           Inl e \<Rightarrow> Inl e
                         | Inr filename \<Rightarrow>
                             (case py_getitem item ''data'' of
                                Inl e \<Rightarrow> Inl e
                              | Inr d \<Rightarrow>
                                  (let json_content = json_dumps d
                                   in case writestr env filename json_content of
                                        Inl e \<Rightarrow> Inl e
                                      | Inr stored \<Rightarrow>
                                          write_items env items
                                            (zipf @ [(stored, json_content)])))))))"

definition create_zip_package :: "env \<Rightarrow> pyval \<Rightarrow> archive result" where
  "create_zip_package env json_data_list =
     (case py_iter json_data_list of
        Inl e \<Rightarrow> Inl e
      | Inr items \<Rightarrow> write_items env items [])"



section \<open>The upload handler\<close>

text \<open>
  \<^verbatim>\<open>key in form\<close> and \<^verbatim>\<open>form[key]\<close> of \<^verbatim>\<open>cgi.FieldStorage\<close> on the parts of a multipart
  form: indexing gives the part itself when one part has the name and the list of the
  parts when several have it, which is why the source wraps a single part into a list.
\<close>

datatype field = Single fileitem | Several "fileitem list"

definition form_contains :: "string \<Rightarrow> fileitem list \<Rightarrow> bool" where
  "form_contains key form = list_ex (\<lambda>item. field_name item = key) form"

definition form_getitem :: "fileitem list \<Rightarrow> string \<Rightarrow> field result" where
  "form_getitem form key =
     (case filter (\<lambda>item. field_name item = key) form of
        [] \<Rightarrow> Inl (Exception ''KeyError'' (quoted key))
      | [item] \<Rightarrow> Inr (Single item)
      | found \<Rightarrow> Inr (Several found))"

text \<open>\<^verbatim>\<open>if not isinstance(files, list): files = [files]\<close>\<close>

definition as_list :: "field \<Rightarrow> fileitem list" where
  "as_list files = (case files of Single item \<Rightarrow> [item] | Several found \<Rightarrow> found)"

text \<open>\<^verbatim>\<open>if fileitem.filename\<close>: the attribute is neither \<^verbatim>\<open>None\<close> nor empty.\<close>

definition has_filename :: "fileitem \<Rightarrow> bool" where
  "has_filename item = (case upload_name item of None \<Rightarrow> False | Some n \<Rightarrow> n \<noteq> [])"

text \<open>
  \<^verbatim>\<open>fileitem.file.read()\<close>: the attribute \<^verbatim>\<open>read\<close> is looked up on \<^verbatim>\<open>None\<close> when the part
  has no file.
\<close>

definition file_read :: "fileitem \<Rightarrow> bytes result" where
  "file_read item =
     (case part_file item of
        None \<Rightarrow> Inl (Exception ''AttributeError''
                  (quoted ''NoneType'' @ '' object has no attribute '' @ quoted ''read''))
      | Some file_data \<Rightarrow> Inr file_data)"

text \<open>
  The loop \<^verbatim>\<open>for fileitem in files\<close>. The content of a part is read before the \<^verbatim>\<open>try\<close>,
  so an exception of the read leaves the loop and \<open>do_POST\<close>; the
  \<^verbatim>\<open>try/except Exception\<close> is around the call of \<open>process_pdf\<close> only. \<open>results\<close> is the
  list appended to, and the file system is handed from one call to the next.
\<close>

fun convert_files ::
    "env \<Rightarrow> filesystem \<Rightarrow> fileitem list \<Rightarrow> pyval list \<Rightarrow>
       pyval list result \<times> filesystem" where
  "convert_files env fs [] results = (Inr results, fs)"
| "convert_files env fs (item # files) results =
     (case upload_name item of
        None \<Rightarrow> convert_files env fs files results
      | Some name \<Rightarrow>
          if name = [] then convert_files env fs files results
          else
            (case file_read item of
               Inl e \<Rightarrow> (Inl e, fs)
             | Inr file_data \<Rightarrow>
                 (case process_pdf env fs file_data name of
                    (Inr result, fs') \<Rightarrow> convert_files env fs' files (results @ [result])
                  | (Inl e, fs') \<Rightarrow>
                      convert_files env fs' files (results @ [failure_outcome name e]))))"

definition not_found :: response where
  "not_found = \<lparr>status = 404, sent_headers = [], sent_body = BytesBody ''Not Found''\<rparr>"

definition json_response :: "body \<Rightarrow> response" where
  "json_response b =
     \<lparr>status = 200,
      sent_headers = [(''Content-Type'', ''application/json''),
                      (''Access-Control-Allow-Origin'', ''*'')],
      sent_body = b\<rparr>"

definition preflight :: response where
  "preflight =
     \<lparr>status = 200,
      sent_headers = [(''Access-Control-Allow-Origin'', ''*''),
                      (''Access-Control-Allow-Methods'', ''POST, OPTIONS''),
                      (''Access-Control-Allow-Headers'', ''Content-Type'')],
      sent_body = NoBody\<rparr>"

text \<open>
  \<^verbatim>\<open>'action' in payload and payload['action'] == 'download_all'\<close> and
  \<^verbatim>\<open>payload.get('json_data', [])\<close>.
\<close>

definition is_download_all :: "pyval \<Rightarrow> bool result" where
  "is_download_all payload =
     (case py_contains ''action'' payload of
        Inl e \<Rightarrow> Inl e
      | Inr present \<Rightarrow>
          if \<not> present then Inr False
          else
            (case py_getitem payload ''action'' of
               Inl e \<Rightarrow> Inl e
             | Inr action \<Rightarrow> Inr (action = PStr ''download_all'')))"

definition get_json_data :: "pyval \<Rightarrow> pyval result" where
  "get_json_data payload =
     (case payload of
        PDict d \<Rightarrow> Inr (case map_of d ''json_data'' of None \<Rightarrow> PList [] | Some v \<Rightarrow> v)
      | _ \<Rightarrow> Inl (Exception ''AttributeError''
                (quoted (type_name payload) @ '' object has no attribute '' @ quoted ''get'')))"

text \<open>
  \<^verbatim>\<open>cgi.parse_header(self.headers['Content-Type'])\<close>: for a header that was not sent the
  lookup gives \<^verbatim>\<open>None\<close>, and \<^verbatim>\<open>parse_header\<close> raises on \<^verbatim>\<open>';' + None\<close>.
\<close>

definition content_type_of :: "env \<Rightarrow> request \<Rightarrow> string result" where
  "content_type_of env req =
     (case headers req ''Content-Type'' of
        None \<Rightarrow> Inl (Exception ''TypeError''
                  (''can only concatenate str (not '' @ [CHR 0x22] @ ''NoneType''
                     @ [CHR 0x22] @ '') to str''))
      | Some line \<Rightarrow> Inr (parse_header env line))"

text \<open>
  \<^verbatim>\<open>do_POST\<close>, in the order of the source: the branch for the path \<^verbatim>\<open>/convert\<close> with its
  two content types, the \<^verbatim>\<open>elif\<close> for the preflight, and the default response that every
  path not ended by a \<^verbatim>\<open>return\<close> reaches. The result is the response written, or the
  exception that leaves the method.
\<close>

definition do_POST :: "env \<Rightarrow> filesystem \<Rightarrow> request \<Rightarrow> response result \<times> filesystem" where
  "do_POST env fs req =
     (if path req = ''/convert'' then
        (case content_type_of env req of
           Inl e \<Rightarrow> (Inl e, fs)
         | Inr content_type \<Rightarrow>
             if content_type = ''multipart/form-data'' then
               (case FieldStorage env req of
                  Inl e \<Rightarrow> (Inl e, fs)
                | Inr form \<Rightarrow>
                    if form_contains ''files[]'' form then
                      (case form_getitem form ''files[]'' of
                         Inl e \<Rightarrow> (Inl e, fs)
                       | Inr files \<Rightarrow>
                           (case convert_files env fs (as_list files) [] of
                              (Inl e, fs') \<Rightarrow> (Inl e, fs')
                            | (Inr results, fs') \<Rightarrow>
                                (Inr (json_response (JsonBody (PList results))), fs')))
                    else (Inr (json_response (JsonBody (PList []))), fs))
             else if content_type = ''application/json'' then
               (case read_payload env req of
                  Inl e \<Rightarrow> (Inl e, fs)
                | Inr payload \<Rightarrow>
                    (case is_download_all payload of
                       Inl e \<Rightarrow> (Inl e, fs)
                     | Inr download \<Rightarrow>
                         if download then
                           (case get_json_data payload of
                              Inl e \<Rightarrow> (Inl e, fs)
                            | Inr json_data_list \<Rightarrow>
                                (case create_zip_package env json_data_list of
                                   Inl e \<Rightarrow> (Inl e, fs)
                                 | Inr zip_data \<Rightarrow>
                                     (Inr (json_response (ZipBody zip_data)), fs)))
                         else (Inr not_found, fs)))
             else (Inr not_found, fs))
      else if path req = ''/convert'' \<and> command req = ''OPTIONS'' then (Inr preflight, fs)
      else (Inr not_found, fs))"

text \<open>
  \<^verbatim>\<open>do_GET\<close> rewrites the root path and leaves the rest to the inherited method.
\<close>

definition do_GET :: "env \<Rightarrow> request \<Rightarrow> response result" where
  "do_GET env req =
     static_file env ''GET'' (if path req = ''/'' then ''/index.html'' else path req)"

text \<open>
  The dispatch of \<^verbatim>\<open>BaseHTTPRequestHandler.handle_one_request\<close>: the method
  \<^verbatim>\<open>'do_' + self.command\<close> is called when the handler has it, and \<^verbatim>\<open>send_error(501)\<close>
  answers otherwise. \<open>PDFConverterHandler\<close> defines \<^verbatim>\<open>do_GET\<close> and \<^verbatim>\<open>do_POST\<close> and inherits
  \<^verbatim>\<open>do_HEAD\<close>; it has no other \<^verbatim>\<open>do_\<close> method.
\<close>

definition handle_one_request ::
    "env \<Rightarrow> filesystem \<Rightarrow> request \<Rightarrow> response result \<times> filesystem" where
  "handle_one_request env fs req =
     (if command req = ''GET'' then (do_GET env req, fs)
      else if command req = ''POST'' then do_POST env fs req
      else if command req = ''HEAD'' then (static_file env ''HEAD'' (path req), fs)
      else
        (Inr \<lparr>status = 501,
              sent_headers = [],
              sent_body = ErrorPage (''Unsupported method ('' @ quoted (command req) @ '')'')\<rparr>,
         fs))"

section \<open>The command-line variant\<close>

text \<open>\<^verbatim>\<open>os.path.basename\<close> and \<^verbatim>\<open>os.path.splitext\<close> of \<^verbatim>\<open>posixpath\<close>.\<close>

definition basename :: "string \<Rightarrow> string" where
  "basename p = rev (takeWhile (\<lambda>c. c \<noteq> CHR ''/'') (rev p))"

text \<open>\<^verbatim>\<open>p.rfind(c)\<close>: the last index of \<open>c\<close>, or \<open>-1\<close>.\<close>

definition rfind :: "string \<Rightarrow> char \<Rightarrow> int" where
  "rfind p c =
     (if c \<in> set p then int (length p) - 1 - int (length (takeWhile (\<lambda>x. x \<noteq> c) (rev p)))
      else - 1)"

definition splitext :: "string \<Rightarrow> string \<times> string" where
  "splitext p =
     (let sepIndex = rfind p CHR ''/'';
          dotIndex = rfind p CHR ''.''
      in if dotIndex > sepIndex \<and>
            list_ex (\<lambda>c. c \<noteq> CHR ''.'')
              (take (nat (dotIndex - sepIndex - 1)) (drop (nat (sepIndex + 1)) p))
         then (take (nat dotIndex) p, drop (nat dotIndex) p)
         else (p, []))"

text \<open>
  \<^verbatim>\<open>extract_text_from_pdf(pdf_path)\<close>: the loop of \<open>process_pdf\<close> once more, with every
  exception raised again as an \<^verbatim>\<open>Exception\<close> whose message has a fixed prefix.
\<close>

definition extract_text_from_pdf :: "env \<Rightarrow> filesystem \<Rightarrow> string \<Rightarrow> pyval list result" where
  "extract_text_from_pdf env fs pdf_path =
     (case read_pages env fs pdf_path of
        Inr pages \<Rightarrow> Inr pages
      | Inl e \<Rightarrow>
          Inl (Exception ''Exception'' (''Error extracting text from PDF: '' @ str_of e)))"

text \<open>
  Modelled from the spec: the body of \<^verbatim>\<open>convert_pdf_to_json\<close> after its first two
  statements (\<open>base_name\<close> and \<open>file_name\<close>) is missing from the source, which ends at the
  comment on the default output path. The spec has the function convert a local PDF
  path to a JSON output file, with the output path derived from the base name of the
  input when none is given, and the docstring has it return the path of the saved file.
  The model extracts the pages with \<open>extract_text_from_pdf\<close>, takes the output path
  given or else the one that the two statements prepare (\<open>file_name\<close>, the base name
  without its extension, followed by \<^verbatim>\<open>.json\<close>), saves the JSON text of the document
  (the dictionary of \<open>pdf_data\<close> for the base name, as \<^verbatim>\<open>json.dumps(..., indent=2)\<close> writes
  it) there and returns the path.
\<close>

definition convert_pdf_to_json ::
    "env \<Rightarrow> filesystem \<Rightarrow> string \<Rightarrow> string option \<Rightarrow> string result \<times> filesystem" where
  "convert_pdf_to_json env fs pdf_path output_path =
     (let base_name = basename pdf_path;
          file_name = fst (splitext base_name);
          out = (case output_path of
                   None \<Rightarrow> file_name @ ''.json''
                 | Some p \<Rightarrow> p)
      in case extract_text_from_pdf env fs pdf_path of
           Inl e \<Rightarrow> (Inl e, fs)
         | Inr pages \<Rightarrow>
             (case save_fault env out of
                Some e \<Rightarrow> (Inl e, fs)
              | None \<Rightarrow> (Inr out, fs(out \<mapsto> json_dumps (pdf_data base_name pages)))))"

section \<open>A concrete environment\<close>

text \<open>
  An environment to run the model on: the reader accepts the bytes that start with
  \<^verbatim>\<open>%PDF\<close> and gives them two pages, the second one empty; bytes that start with
  \<^verbatim>\<open>%PDF-torn\<close> have a second page whose extraction raises.
\<close>

definition sample_reader :: "bytes \<Rightarrow> page list result" where
  "sample_reader b =
     (if prefix ''%PDF-torn'' b then
        Inr [Inr (Some ''a b c''), Inl (Exception ''PdfReadError'' ''broken stream'')]
      else if prefix ''%PDF'' b then Inr [Inr (Some ''a b c''), Inr (Some [])]
      else Inl (Exception ''PdfReadError'' ''EOF marker not found''))"

definition sample_form :: "fileitem list" where
  "sample_form =
     [\<lparr>field_name = ''files[]'', upload_name = Some ''one.pdf'', part_file = Some ''%PDF-1.4''\<rparr>,
      \<lparr>field_name = ''note'', upload_name = None, part_file = None\<rparr>,
      \<lparr>field_name = ''files[]'', upload_name = Some ''bad.pdf'', part_file = Some ''not a pdf''\<rparr>,
      \<lparr>field_name = ''files[]'', upload_name = Some [], part_file = Some []\<rparr>,
      \<lparr>field_name = ''files[]'', upload_name = Some ''two.pdf'', part_file = Some ''%PDF-1.7''\<rparr>]"

text \<open>
  What \<^verbatim>\<open>zipfile\<close> of CPython 3.11 does with the name of a member: \<^verbatim>\<open>ZipInfo\<close> cuts the
  name at its first NUL character, \<^verbatim>\<open>writestr\<close> then looks at the last character of the
  name, which raises on an empty name, and the header of the member has two bytes for
  the length of the encoded name (ASCII, or UTF-8 with two bytes for each of the
  characters from 128 on).
\<close>

definition encoded_length :: "string \<Rightarrow> nat" where
  "encoded_length name =
     length name + length (filter (\<lambda>c. 128 \<le> (of_char c :: nat)) name)"

definition zipfile_writestr :: "string \<Rightarrow> string \<Rightarrow> string result" where
  "zipfile_writestr zinfo_or_arcname content =
     (let filename = takeWhile (\<lambda>c. c \<noteq> CHR 0x00) zinfo_or_arcname
      in if filename = [] then Inl (Exception ''IndexError'' ''string index out of range'')
         else if 65535 < encoded_length filename then
           Inl (Exception ''struct.error'' ''ushort format requires 0 <= number <= 65535'')
         else Inr filename)"

definition sample_env :: env where
  "sample_env =
     \<lparr>NamedTemporaryFile = (\<lambda>fs. Inr ''/tmp/tmpk3.pdf''),
      write_fault = (\<lambda>b. None),
      PdfReader = sample_reader,
      unlink_fault = (\<lambda>p. None),
      parse_header = (\<lambda>line. takeWhile (\<lambda>c. c \<noteq> CHR '';'') line),
      FieldStorage = (\<lambda>req. Inr sample_form),
      read_payload = (\<lambda>req. Inl (Exception ''JSONDecodeError'' ''Expecting value'')),
      static_file = (\<lambda>method p. Inr \<lparr>status = 404, sent_headers = [], sent_body = ErrorPage ''File not found''\<rparr>),
      save_fault = (\<lambda>p. None),
      writestr = zipfile_writestr\<rparr>"

text \<open>The same with a full disk, and with a temporary directory that cannot be unlinked in.\<close>

definition full_disk_env :: env where
  "full_disk_env =
     sample_env\<lparr>write_fault :=
       (\<lambda>b. Some (Exception ''OSError'' ''[Errno 28] No space left on device'', []))\<rparr>"

definition sticky_env :: env where
  "sticky_env =
     sample_env\<lparr>unlink_fault :=
       (\<lambda>p. Some (Exception ''PermissionError'' ''[Errno 13] Permission denied''))\<rparr>"

text \<open>
  The same with a form whose second file part was sent as \<^verbatim>\<open>multipart/mixed\<close>: it has a
  file name and no file.
\<close>

definition nested_form :: "fileitem list" where
  "nested_form =
     [\<lparr>field_name = ''files[]'', upload_name = Some ''one.pdf'', part_file = Some ''%PDF-1.4''\<rparr>,
      \<lparr>field_name = ''files[]'', upload_name = Some ''inner.pdf'', part_file = None\<rparr>,
      \<lparr>field_name = ''files[]'', upload_name = Some ''two.pdf'', part_file = Some ''%PDF-1.7''\<rparr>]"

definition nested_env :: env where
  "nested_env = sample_env\<lparr>FieldStorage := (\<lambda>req. Inr nested_form)\<rparr>"

definition multipart_request :: request where
  "multipart_request =
     \<lparr>command = ''POST'', path = ''/convert'',
      headers = [''Content-Type'' \<mapsto> ''multipart/form-data; boundary=xyz''],
      rfile = []\<rparr>"


section \<open>The conversion function: failures, pages and the temporary file\<close>


lemma extract_pages_all:
  "extract_pages i (map Inr texts) pages =
     Inr (pages @ map (\<lambda>(k, t). page_record k t) (List.enumerate i texts))"
  by (induction texts arbitrary: i pages) simp_all

lemma extract_pages_raises:
  "extract_pages i (map Inr texts @ Inl e # rest) pages = Inl e"
  by (induction texts arbitrary: i pages) simp_all

lemma read_pages_written:
  "read_pages env (fs(tmp \<mapsto> file_data)) tmp =
     (case PdfReader env file_data of
        Inl e \<Rightarrow> Inl e
      | Inr pdf_pages \<Rightarrow> extract_pages 0 pdf_pages [])"
  by (simp add: read_pages_def)

lemma process_pdf_protected:
  assumes "NamedTemporaryFile env fs = Inr tmp" and "write_fault env file_data = None"
  shows "process_pdf env fs file_data filename =
     (Inr (case read_pages env (fs(tmp \<mapsto> file_data)) tmp of
             Inr pages \<Rightarrow> success_outcome filename (pdf_data filename pages)
           | Inl e \<Rightarrow> failure_outcome filename e),
      cleanup env (fs(tmp \<mapsto> file_data)) tmp)"
  using assms by (simp add: process_pdf_def Let_def)

text \<open>
  C2. Once the temporary file is written, a failure of the reader on opening the file, or
  of the extraction of the text of any page, is not raised to the caller:
  \<open>process_pdf\<close> returns the dictionary \<^verbatim>\<open>{filename, success: False, error: str(e)}\<close> for the
  exception \<open>e\<close> that was raised first.
\<close>

theorem process_pdf_failure_is_returned:
  assumes "NamedTemporaryFile env fs = Inr tmp"
    and "write_fault env file_data = None"
    and "PdfReader env file_data = Inl e \<or>
         (\<exists>texts rest. PdfReader env file_data = Inr (map Inr texts @ Inl e # rest))"
  shows "fst (process_pdf env fs file_data filename) =
           Inr (PDict [(''filename'', PStr filename), (''success'', PBool False),
                       (''error'', PStr (str_of e))])"
proof -
  have "read_pages env (fs(tmp \<mapsto> file_data)) tmp = Inl e"
    using assms(3) by (auto simp: read_pages_written extract_pages_raises)
  then show ?thesis
    by (simp add: process_pdf_protected [OF assms(1,2)] failure_outcome_def)
qed

theorem process_pdf_failure_is_returned_witness:
  "fst (process_pdf sample_env Map.empty ''%PDF-torn'' ''x.pdf'') =
     Inr (PDict [(''filename'', PStr ''x.pdf''), (''success'', PBool False),
                 (''error'', PStr ''broken stream'')])
   \<and> fst (process_pdf sample_env Map.empty ''garbage'' ''y.pdf'') =
     Inr (PDict [(''filename'', PStr ''y.pdf''), (''success'', PBool False),
                 (''error'', PStr ''EOF marker not found'')])"
proof -
  have a: "NamedTemporaryFile sample_env Map.empty = Inr ''/tmp/tmpk3.pdf''"
    by (simp add: sample_env_def)
  have b: "write_fault sample_env b = None" for b
    by (simp add: sample_env_def)
  have c: "PdfReader sample_env ''%PDF-torn'' =
             Inr (map Inr [Some ''a b c''] @ Inl (Exception ''PdfReadError'' ''broken stream'') # [])"
    by (simp add: sample_env_def sample_reader_def)
  have d: "PdfReader sample_env ''garbage'' = Inl (Exception ''PdfReadError'' ''EOF marker not found'')"
    by (simp add: sample_env_def sample_reader_def)
  from c have c': "PdfReader sample_env ''%PDF-torn'' = Inl (Exception ''PdfReadError'' ''broken stream'') \<or>
         (\<exists>texts rest. PdfReader sample_env ''%PDF-torn'' = Inr (map Inr texts @ Inl (Exception ''PdfReadError'' ''broken stream'') # rest))"
    by blast
  show ?thesis
    using process_pdf_failure_is_returned [OF a b c', of "''x.pdf''"]
      process_pdf_failure_is_returned [OF a b disjI1 [OF d], of "''y.pdf''"]
    by simp
qed


lemma enumerate_page_numbers:
  "map (\<lambda>p. py_getitem p ''page_number'')
       (map (\<lambda>(k, t). page_record k t) (List.enumerate i texts)) =
   map (\<lambda>k. Inr (PInt (int k))) [Suc i..<Suc (i + length texts)]"
proof (induction texts arbitrary: i)
  case Nil
  then show ?case by simp
next
  case (Cons t texts)
  have "[Suc i..<Suc (i + length (t # texts))] = Suc i # [Suc (Suc i)..<Suc (Suc i + length texts)]"
    by (simp add: upt_conv_Cons del: upt_Suc)
  then show ?case
    using Cons.IH [of "Suc i"] by (simp add: page_record_def py_getitem_def del: upt_Suc)
qed

text \<open>
  C3. For a PDF whose reader yields \<open>N\<close> pages with extractable text, \<open>process_pdf\<close> returns
  success with \<^verbatim>\<open>total_pages\<close> equal to \<open>N\<close>, a list \<^verbatim>\<open>pages\<close> of length \<open>N\<close>, and the
  \<^verbatim>\<open>page_number\<close> fields \<open>1, 2, ..., N\<close> in the order of the document.
\<close>

theorem process_pdf_pages_counted:
  assumes "NamedTemporaryFile env fs = Inr tmp"
    and "write_fault env file_data = None"
    and "PdfReader env file_data = Inr (map Inr texts)"
  shows "\<exists>pages.
           fst (process_pdf env fs file_data filename) =
             Inr (PDict [(''filename'', PStr filename), (''success'', PBool True),
                         (''data'', PDict [(''filename'', PStr filename),
                                          (''total_pages'', PInt (int (length texts))),
                                          (''pages'', PList pages)])])
         \<and> length pages = length texts
         \<and> map (\<lambda>p. py_getitem p ''page_number'') pages =
             map (\<lambda>k. Inr (PInt (int k))) [1..<Suc (length texts)]"
proof -
  let ?pages = "map (\<lambda>(k, t). page_record k t) (List.enumerate 0 texts)"
  have "read_pages env (fs(tmp \<mapsto> file_data)) tmp = Inr ?pages"
    using assms(3) by (simp add: read_pages_written extract_pages_all)
  then have "fst (process_pdf env fs file_data filename) =
               Inr (success_outcome filename (pdf_data filename ?pages))"
    by (simp add: process_pdf_protected [OF assms(1,2)])
  moreover have "length ?pages = length texts"
    by simp
  moreover have "map (\<lambda>p. py_getitem p ''page_number'') ?pages =
                   map (\<lambda>k. Inr (PInt (int k))) [1..<Suc (length texts)]"
    using enumerate_page_numbers [of 0 texts] by (simp only: One_nat_def add_0)
  ultimately show ?thesis
    by (auto simp: success_outcome_def pdf_data_def)
qed

theorem process_pdf_pages_counted_witness:
  "\<exists>pages.
     fst (process_pdf sample_env Map.empty ''%PDF-1.4'' ''one.pdf'') =
       Inr (PDict [(''filename'', PStr ''one.pdf''), (''success'', PBool True),
                   (''data'', PDict [(''filename'', PStr ''one.pdf''),
                                    (''total_pages'', PInt 2),
                                    (''pages'', PList pages)])])
     \<and> length pages = 2
     \<and> map (\<lambda>p. py_getitem p ''page_number'') pages = [Inr (PInt 1), Inr (PInt 2)]"
proof -
  have a: "NamedTemporaryFile sample_env Map.empty = Inr ''/tmp/tmpk3.pdf''"
    by (simp add: sample_env_def)
  have b: "write_fault sample_env ''%PDF-1.4'' = None"
    by (simp add: sample_env_def)
  have c: "PdfReader sample_env ''%PDF-1.4'' = Inr (map Inr [Some ''a b c'', Some []])"
    by (simp add: sample_env_def sample_reader_def)
  have d: "[1..<Suc (length [Some ''a b c'', Some []])] = [1, 2]"
    by (simp add: upt_conv_Cons)
  show ?thesis
    using process_pdf_pages_counted [OF a b c, of "''one.pdf''"] unfolding d
    by (simp add: numeral_2_eq_2)
qed

text \<open>
  C10. The temporary file is created and written before the \<^verbatim>\<open>try\<close> of \<open>process_pdf\<close>:
  an exception raised by the creation or by the write leaves \<open>process_pdf\<close> as an
  exception, not as a failure dictionary; it is the \<^verbatim>\<open>except\<close> clause around the call in
  the upload handler that appends the failure entry for the file.
\<close>

theorem process_pdf_write_fault_propagates:
  assumes "NamedTemporaryFile env fs = Inl e \<or>
           (\<exists>tmp written. NamedTemporaryFile env fs = Inr tmp \<and>
              write_fault env file_data = Some (e, written))"
    and "upload_name item = Some name" and "name \<noteq> []"
    and "part_file item = Some file_data"
  shows "fst (process_pdf env fs file_data name) = Inl e
       \<and> fst (convert_files env fs [item] results) =
           Inr (results @ [PDict [(''filename'', PStr name), (''success'', PBool False),
                                  (''error'', PStr (str_of e))]])"
proof -
  obtain fs' where p: "process_pdf env fs file_data name = (Inl e, fs')"
    using assms(1) by (auto simp: process_pdf_def)
  then show ?thesis
    using assms(2,3,4) by (simp add: failure_outcome_def file_read_def)
qed

theorem process_pdf_write_fault_propagates_witness:
  "fst (process_pdf full_disk_env Map.empty ''%PDF-1.4'' ''one.pdf'') =
     Inl (Exception ''OSError'' ''[Errno 28] No space left on device'')
   \<and> fst (convert_files full_disk_env Map.empty
        [\<lparr>field_name = ''files[]'', upload_name = Some ''one.pdf'',
          part_file = Some ''%PDF-1.4''\<rparr>] []) =
     Inr [PDict [(''filename'', PStr ''one.pdf''), (''success'', PBool False),
                 (''error'', PStr ''[Errno 28] No space left on device'')]]"
proof -
  let ?item = "\<lparr>field_name = ''files[]'', upload_name = Some ''one.pdf'',
                 part_file = Some ''%PDF-1.4''\<rparr>"
  let ?e = "Exception ''OSError'' ''[Errno 28] No space left on device''"
  have a: "NamedTemporaryFile full_disk_env Map.empty = Inl ?e \<or>
           (\<exists>tmp written. NamedTemporaryFile full_disk_env Map.empty = Inr tmp \<and>
              write_fault full_disk_env ''%PDF-1.4'' = Some (?e, written))"
    by (simp add: full_disk_env_def sample_env_def)
  have b: "upload_name ?item = Some ''one.pdf''" by simp
  have c: "''one.pdf'' \<noteq> []" by simp
  have d: "part_file ?item = Some ''%PDF-1.4''" by simp
  show ?thesis
    using process_pdf_write_fault_propagates [OF a b c d, of "[]"] by simp
qed

text \<open>
  C6. The claim has the temporary file deleted on every exit path. On a full disk the
  write raises after the file was created with \<^verbatim>\<open>delete=False\<close>; the exception leaves the
  function before the \<^verbatim>\<open>try ... finally\<close> is entered, and the file is still there after
  the call. With the same input and a disk that takes the write, the file is gone.
\<close>

theorem process_pdf_leaks_temporary_file:
  "process_pdf full_disk_env Map.empty ''%PDF-1.4'' ''one.pdf'' =
     (Inl (Exception ''OSError'' ''[Errno 28] No space left on device''),
      [''/tmp/tmpk3.pdf'' \<mapsto> []])
   \<and> snd (process_pdf full_disk_env Map.empty ''%PDF-1.4'' ''one.pdf'') ''/tmp/tmpk3.pdf'' \<noteq> None
   \<and> snd (process_pdf sample_env Map.empty ''%PDF-1.4'' ''one.pdf'') ''/tmp/tmpk3.pdf'' = None"
  by (simp add: process_pdf_def full_disk_env_def sample_env_def cleanup_def Let_def)

text \<open>
  What does hold of the cleanup: once the file is written, it is gone after the call
  whenever \<^verbatim>\<open>os.unlink\<close> succeeds, and a failing \<^verbatim>\<open>os.unlink\<close> does not change the result.
\<close>

lemma cleanup_after_protected_region:
  assumes "NamedTemporaryFile env fs = Inr tmp" and "write_fault env file_data = None"
  shows "unlink_fault env tmp = None \<Longrightarrow> snd (process_pdf env fs file_data filename) tmp = None"
    and "fst (process_pdf env fs file_data filename) =
         fst (process_pdf (env\<lparr>unlink_fault := (\<lambda>p. None)\<rparr>) fs file_data filename)"
  using assms by (simp_all add: process_pdf_def cleanup_def read_pages_def Let_def)

text \<open>
  An example of the second part: where nothing can be unlinked, the conversion returns
  the same dictionary as elsewhere, and the temporary file stays.
\<close>

lemma unlink_failure_swallowed:
  "fst (process_pdf sticky_env Map.empty ''%PDF-1.4'' ''one.pdf'') =
     fst (process_pdf sample_env Map.empty ''%PDF-1.4'' ''one.pdf'')
   \<and> snd (process_pdf sticky_env Map.empty ''%PDF-1.4'' ''one.pdf'') ''/tmp/tmpk3.pdf'' =
       Some ''%PDF-1.4''"
  by (simp add: process_pdf_def sticky_env_def sample_env_def cleanup_def read_pages_def Let_def)

section \<open>The handler\<close>

text \<open>
  C7. The claim has every OPTIONS request to \<^verbatim>\<open>/convert\<close> answered with status 200 and
  the three CORS headers. The handler has no \<^verbatim>\<open>do_OPTIONS\<close>, so the request is answered
  with status 501 and without these headers; and the preflight branch of \<open>do_POST\<close> is an
  \<^verbatim>\<open>elif\<close> of the test \<^verbatim>\<open>self.path == '/convert'\<close> that asks for the same path again, so
  no request at all makes \<open>do_POST\<close> send the preflight response.
\<close>

theorem options_request_not_implemented:
  "fst (handle_one_request env fs
          \<lparr>command = ''OPTIONS'', path = ''/convert'', headers = h, rfile = b\<rparr>) =
     Inr \<lparr>status = 501, sent_headers = [],
          sent_body = ErrorPage (''Unsupported method ('' @ quoted ''OPTIONS'' @ '')'')\<rparr>
   \<and> fst (do_POST env fs req) \<noteq> Inr preflight"
proof -
  have "json_response b \<noteq> preflight" for b
    by (simp add: json_response_def preflight_def)
  moreover have "not_found \<noteq> preflight"
    by (simp add: not_found_def preflight_def)
  ultimately have "fst (do_POST env fs req) \<noteq> Inr preflight"
    by (auto simp: do_POST_def split: sum.splits if_splits prod.splits)
  then show ?thesis
    by (simp add: handle_one_request_def)
qed

text \<open>
  C8. The claim has a POST to \<^verbatim>\<open>/convert\<close> without a \<^verbatim>\<open>Content-Type\<close> header answered
  with the default 404 response. The header lookup gives \<^verbatim>\<open>None\<close>, on which
  \<^verbatim>\<open>cgi.parse_header\<close> raises a \<^verbatim>\<open>TypeError\<close> that nothing in \<open>do_POST\<close> catches: the
  default response is not reached.
\<close>

theorem post_without_content_type_raises:
  "fst (do_POST env fs \<lparr>command = ''POST'', path = ''/convert'', headers = Map.empty, rfile = b\<rparr>) =
     Inl (Exception ''TypeError''
            (''can only concatenate str (not '' @ [CHR 0x22] @ ''NoneType'' @ [CHR 0x22] @ '') to str''))
   \<and> fst (handle_one_request env fs
            \<lparr>command = ''POST'', path = ''/convert'', headers = Map.empty, rfile = b\<rparr>) \<noteq> Inr not_found"
  by (simp add: do_POST_def handle_one_request_def content_type_of_def)

text \<open>
  Nor does a request declared as multipart reach the default response, whatever its
  body: \<^verbatim>\<open>cgi.FieldStorage\<close> raises or yields a form, and the branch ends with the
  JSON response and a \<^verbatim>\<open>return\<close>.
\<close>

lemma multipart_never_not_found:
  assumes "path req = ''/convert''" and "headers req ''Content-Type'' = Some line"
    and "parse_header env line = ''multipart/form-data''"
  shows "fst (do_POST env fs req) \<noteq> Inr not_found"
proof -
  have "json_response b \<noteq> not_found" for b
    by (simp add: json_response_def not_found_def)
  then show ?thesis
    using assms by (auto simp: do_POST_def content_type_of_def split: sum.splits prod.splits)
qed

lemma process_pdf_returns_outcome:
  assumes "process_pdf env fs file_data name = (Inr r, fs')"
  shows "(\<exists>d. r = success_outcome name d) \<or> (\<exists>e. r = failure_outcome name e)"
  using assms
  by (auto simp: process_pdf_def Let_def split: sum.splits option.splits prod.splits)

lemma files_of_form:
  "form_contains key form \<Longrightarrow>
     \<exists>files. form_getitem form key = Inr files
        \<and> as_list files = filter (\<lambda>item. field_name item = key) form"
  "\<not> form_contains key form \<Longrightarrow> filter (\<lambda>item. field_name item = key) form = []"
proof -
  show "\<not> form_contains key form \<Longrightarrow> filter (\<lambda>item. field_name item = key) form = []"
    by (auto simp: form_contains_def list_ex_iff filter_empty_conv)
  assume "form_contains key form"
  then have "filter (\<lambda>item. field_name item = key) form \<noteq> []"
    by (auto simp: form_contains_def list_ex_iff filter_empty_conv)
  then show "\<exists>files. form_getitem form key = Inr files
        \<and> as_list files = filter (\<lambda>item. field_name item = key) form"
    by (auto simp: form_getitem_def as_list_def split: list.splits)
qed

text \<open>
  What the loop does when every part with a file name has a file: the results appended
  are, in the order of the parts, what \<open>process_pdf\<close> returned for the part, or the
  failure dictionary for the exception that \<open>process_pdf\<close> raised.
\<close>

lemma convert_files_outcomes:
  assumes "\<forall>item \<in> set files. has_filename item \<longrightarrow> part_file item \<noteq> None"
  shows "\<exists>rs fs'. convert_files env fs files results = (Inr (results @ rs), fs') \<and>
     list_all2 (\<lambda>item r. \<exists>fs0 name file_data.
         upload_name item = Some name \<and> part_file item = Some file_data \<and>
         r = (case fst (process_pdf env fs0 file_data name) of
                Inr result \<Rightarrow> result
              | Inl e \<Rightarrow> failure_outcome name e))
       (filter has_filename files) rs"
  using assms
proof (induction files arbitrary: fs results)
  case Nil
  then show ?case by simp
next
  case (Cons item files)
  from Cons.prems have rest: "\<forall>item \<in> set files. has_filename item \<longrightarrow> part_file item \<noteq> None"
    by simp
  show ?case
  proof (cases "has_filename item")
    case False
    then have "convert_files env fs (item # files) results = convert_files env fs files results"
      by (auto simp: has_filename_def split: option.splits)
    with Cons.IH [OF rest, of fs results] False show ?thesis
      by simp
  next
    case True
    then obtain name where name: "upload_name item = Some name" "name \<noteq> []"
      by (auto simp: has_filename_def split: option.splits)
    from True Cons.prems obtain file_data where data: "part_file item = Some file_data"
      by auto
    obtain res fs1 where p: "process_pdf env fs file_data name = (res, fs1)"
      by (cases "process_pdf env fs file_data name")
    define r where "r = (case res of Inr result \<Rightarrow> result | Inl e \<Rightarrow> failure_outcome name e)"
    have step: "convert_files env fs (item # files) results =
                  convert_files env fs1 files (results @ [r])"
      using name data p by (cases res) (simp_all add: r_def file_read_def)
    from Cons.IH [OF rest, of fs1 "results @ [r]"] obtain rs fs' where rs:
      "convert_files env fs1 files (results @ [r]) = (Inr ((results @ [r]) @ rs), fs')"
      "list_all2 (\<lambda>item r. \<exists>fs0 name file_data.
         upload_name item = Some name \<and> part_file item = Some file_data \<and>
         r = (case fst (process_pdf env fs0 file_data name) of
                Inr result \<Rightarrow> result
              | Inl e \<Rightarrow> failure_outcome name e))
       (filter has_filename files) rs"
      by blast
    have "\<exists>fs0 name file_data.
         upload_name item = Some name \<and> part_file item = Some file_data \<and>
         r = (case fst (process_pdf env fs0 file_data name) of
                Inr result \<Rightarrow> result
              | Inl e \<Rightarrow> failure_outcome name e)"
      using name data p by (auto simp: r_def intro!: exI [of _ fs])
    with rs True step show ?thesis
      by (intro exI [of _ "r # rs"] exI [of _ fs']) simp
  qed
qed

text \<open>A part with a file name and no file ends the loop with the exception of the read.\<close>

lemma convert_files_unreadable:
  assumes "\<exists>item \<in> set files. has_filename item \<and> part_file item = None"
  shows "\<exists>fs'. convert_files env fs files results =
     (Inl (Exception ''AttributeError''
        (quoted ''NoneType'' @ '' object has no attribute '' @ quoted ''read'')), fs')"
  using assms
proof (induction files arbitrary: fs results)
  case Nil
  then show ?case by simp
next
  case (Cons item files)
  show ?case
  proof (cases "has_filename item")
    case False
    with Cons.prems have "\<exists>item \<in> set files. has_filename item \<and> part_file item = None"
      by auto
    from Cons.IH [OF this, of fs results] False show ?thesis
      by (auto simp: has_filename_def split: option.splits)
  next
    case True
    then obtain name where name: "upload_name item = Some name" "name \<noteq> []"
      by (auto simp: has_filename_def split: option.splits)
    show ?thesis
    proof (cases "part_file item")
      case None
      with name show ?thesis by (simp add: file_read_def)
    next
      case (Some file_data)
      with True Cons.prems have later: "\<exists>item \<in> set files. has_filename item \<and> part_file item = None"
        by auto
      obtain res fs1 where p: "process_pdf env fs file_data name = (res, fs1)"
        by (cases "process_pdf env fs file_data name")
      show ?thesis
      proof (cases res)
        case (Inl e)
        with Cons.IH [OF later, of fs1 "results @ [failure_outcome name e]"] name Some p
        show ?thesis by (simp add: file_read_def)
      next
        case (Inr result)
        with Cons.IH [OF later, of fs1 "results @ [result]"] name Some p
        show ?thesis by (simp add: file_read_def)
      qed
    qed
  qed
qed

text \<open>
  For a multipart POST to \<^verbatim>\<open>/convert\<close> in which every part of \<^verbatim>\<open>files[]\<close> with a file name
  has a file, the answer is status 200 with the JSON array of these outcomes.
\<close>

lemma upload_batch_outcomes:
  assumes "path req = ''/convert''"
    and "headers req ''Content-Type'' = Some line"
    and "parse_header env line = ''multipart/form-data''"
    and "FieldStorage env req = Inr form"
    and "\<forall>item \<in> set form. field_name item = ''files[]'' \<and> has_filename item
           \<longrightarrow> part_file item \<noteq> None"
  shows "\<exists>results fs'.
           do_POST env fs req =
             (Inr \<lparr>status = 200,
                   sent_headers = [(''Content-Type'', ''application/json''),
                                   (''Access-Control-Allow-Origin'', ''*'')],
                   sent_body = JsonBody (PList results)\<rparr>, fs')
         \<and> list_all2 (\<lambda>item r. \<exists>fs0 name file_data.
               upload_name item = Some name \<and> part_file item = Some file_data \<and>
               r = (case fst (process_pdf env fs0 file_data name) of
                      Inr result \<Rightarrow> result
                    | Inl e \<Rightarrow> failure_outcome name e))
             (filter has_filename (filter (\<lambda>item. field_name item = ''files[]'') form))
             results"
proof -
  let ?files = "filter (\<lambda>item. field_name item = ''files[]'') form"
  have "\<forall>item \<in> set ?files. has_filename item \<longrightarrow> part_file item \<noteq> None"
    using assms(5) by simp
  from convert_files_outcomes [OF this, of env fs "[]"] obtain results fs' where c:
    "convert_files env fs ?files [] = (Inr results, fs')"
    "list_all2 (\<lambda>item r. \<exists>fs0 name file_data.
               upload_name item = Some name \<and> part_file item = Some file_data \<and>
               r = (case fst (process_pdf env fs0 file_data name) of
                      Inr result \<Rightarrow> result
                    | Inl e \<Rightarrow> failure_outcome name e))
             (filter has_filename ?files) results"
    by auto
  have post: "do_POST env fs req = (Inr (json_response (JsonBody (PList results))), fs')"
  proof (cases "form_contains ''files[]'' form")
    case True
    from files_of_form(1) [OF this] obtain files where
      "form_getitem form ''files[]'' = Inr files" "as_list files = ?files"
      by blast
    with True c(1) assms(1-4) show ?thesis
      by (simp add: do_POST_def content_type_of_def)
  next
    case False
    from files_of_form(2) [OF this] c(1) have "results = []" "fs' = fs"
      by simp_all
    with False assms(1-4) show ?thesis
      by (simp add: do_POST_def content_type_of_def)
  qed
  with c(2) show ?thesis
    by (auto simp: json_response_def)
qed

text \<open>
  C1. The claim has every multipart POST to \<^verbatim>\<open>/convert\<close> answered with status 200 and one
  outcome for each file part with a file name, no file aborting the batch. The bytes
  of a part are read at line 82, before the \<^verbatim>\<open>try\<close> of line 84. A part of \<^verbatim>\<open>files[]\<close> that
  was sent with a file name and as \<^verbatim>\<open>multipart/mixed\<close> has no file: the read raises an
  \<^verbatim>\<open>AttributeError\<close> that leaves \<open>do_POST\<close>, and the outcomes of the two good files of the
  batch are never sent.
\<close>

theorem upload_aborted_by_unreadable_part:
  "fst (do_POST nested_env Map.empty multipart_request) =
     Inl (Exception ''AttributeError''
            (quoted ''NoneType'' @ '' object has no attribute '' @ quoted ''read''))"
  by (simp add: do_POST_def content_type_of_def multipart_request_def nested_env_def
      sample_env_def nested_form_def form_contains_def form_getitem_def as_list_def
      file_read_def process_pdf_def read_pages_def sample_reader_def cleanup_def Let_def)

section \<open>The batch packager and the command-line variant\<close>











text \<open>The base name of a path is its last component.\<close>

lemma basename_last_component:
  "CHR ''/'' \<notin> set name \<Longrightarrow> basename (dir @ ''/'' @ name) = name"
proof -
  assume "CHR ''/'' \<notin> set name"
  then have "takeWhile (\<lambda>c. c \<noteq> CHR ''/'') (rev name) = rev name"
    by (auto simp: takeWhile_eq_all_conv)
  moreover have "rev (dir @ ''/'' @ name) = rev name @ CHR ''/'' # rev dir"
    by simp
  ultimately show ?thesis
    unfolding basename_def by (simp only: takeWhile_tail simp_thms rev_rev_ident)
qed

text \<open>
  A base name is split at its last dot, when a character other than a dot stands
  before it.
\<close>

lemma rfind_absent: "c \<notin> set p \<Longrightarrow> rfind p c = - 1"
  by (simp add: rfind_def)

lemma rfind_last:
  assumes "c \<notin> set ext"
  shows "rfind (stem @ c # ext) c = int (length stem)"
proof -
  have "rev (stem @ c # ext) = rev ext @ c # rev stem"
    by simp
  moreover have "takeWhile (\<lambda>x. x \<noteq> c) (rev ext @ c # rev stem) = rev ext"
    using assms by (auto simp: takeWhile_tail takeWhile_eq_all_conv)
  ultimately have "takeWhile (\<lambda>x. x \<noteq> c) (rev (stem @ c # ext)) = rev ext"
    by simp
  then show ?thesis
    by (simp add: rfind_def)
qed

lemma splitext_stem:
  assumes "CHR ''.'' \<notin> set ext" and "CHR ''/'' \<notin> set ext" and "CHR ''/'' \<notin> set stem"
    and "\<exists>c \<in> set stem. c \<noteq> CHR ''.''"
  shows "splitext (stem @ ''.'' @ ext) = (stem, ''.'' @ ext)"
proof -
  have sep: "rfind (stem @ CHR ''.'' # ext) CHR ''/'' = - 1"
    using assms(2,3) by (simp add: rfind_absent)
  have dot: "rfind (stem @ CHR ''.'' # ext) CHR ''.'' = int (length stem)"
    using assms(1) by (rule rfind_last)
  have "list_ex (\<lambda>c. c \<noteq> CHR ''.'') stem"
    using assms(4) by (simp add: list_ex_iff)
  then show ?thesis
    by (simp add: splitext_def sep dot Let_def)
qed

text \<open>
  When the reader fails, \<open>extract_text_from_pdf\<close> raises an \<^verbatim>\<open>Exception\<close> with its
  message behind a fixed prefix, and nothing is saved.
\<close>

lemma convert_pdf_to_json_extraction_fails:
  assumes "fs pdf_path = Some contents" and "PdfReader env contents = Inl e"
  shows "convert_pdf_to_json env fs pdf_path output_path =
     (Inl (Exception ''Exception'' (''Error extracting text from PDF: '' @ str_of e)), fs)"
  using assms
  by (simp add: convert_pdf_to_json_def extract_text_from_pdf_def read_pages_def Let_def)

text \<open>
  C9. The command-line variant converts the PDF at a local path: when the pages are
  read and the output file can be written, it saves the JSON text of the document,
  with the record of every page as \<open>extract_text_from_pdf\<close> builds it, and returns the
  path of the saved file. That path is the output path given or, when none is given,
  the base name of the input without its extension, followed by \<^verbatim>\<open>.json\<close>: for an input
  \<^verbatim>\<open>dir/stem.ext\<close> it is \<^verbatim>\<open>stem.json\<close>.
\<close>

theorem convert_pdf_to_json_saves:
  assumes "fs pdf_path = Some contents"
    and "PdfReader env contents = Inr (map Inr texts)"
    and "out = (case output_path of
                  None \<Rightarrow> fst (splitext (basename pdf_path)) @ ''.json''
                | Some p \<Rightarrow> p)"
    and "save_fault env out = None"
  shows "convert_pdf_to_json env fs pdf_path output_path =
           (Inr out,
            fs(out \<mapsto> json_dumps (PDict
              [(''filename'', PStr (basename pdf_path)),
               (''total_pages'', PInt (int (length texts))),
               (''pages'', PList (map (\<lambda>(i, t). PDict
                  [(''page_number'', PInt (int i + 1)),
                   (''content'', (case t of None \<Rightarrow> PNone | Some s \<Rightarrow> PStr s)),
                   (''word_count'', PInt (word_count t)),
                   (''character_count'', PInt (character_count t))])
                 (List.enumerate 0 texts)))])))
       \<and> (\<forall>dir stem ext.
            pdf_path = dir @ ''/'' @ stem @ ''.'' @ ext \<and> output_path = None \<and>
            CHR ''.'' \<notin> set ext \<and> CHR ''/'' \<notin> set ext \<and> CHR ''/'' \<notin> set stem \<and>
            (\<exists>c \<in> set stem. c \<noteq> CHR ''.'')
            \<longrightarrow> out = stem @ ''.json'')"
proof (intro conjI allI impI)
  let ?pages = "map (\<lambda>(k, t). page_record k t) (List.enumerate 0 texts)"
  have "extract_text_from_pdf env fs pdf_path = Inr ?pages"
    using assms(1,2) by (simp add: extract_text_from_pdf_def read_pages_def extract_pages_all)
  then have "convert_pdf_to_json env fs pdf_path output_path =
               (Inr out, fs(out \<mapsto> json_dumps (pdf_data (basename pdf_path) ?pages)))"
    using assms(3,4) by (simp add: convert_pdf_to_json_def Let_def)
  moreover have "(\<lambda>(k, t). page_record k t) = (\<lambda>(i, t). PDict
                  [(''page_number'', PInt (int i + 1)),
                   (''content'', (case t of None \<Rightarrow> PNone | Some s \<Rightarrow> PStr s)),
                   (''word_count'', PInt (word_count t)),
                   (''character_count'', PInt (character_count t))])"
    by (simp add: page_record_def content_value_def fun_eq_iff)
  ultimately show "convert_pdf_to_json env fs pdf_path output_path =
           (Inr out,
            fs(out \<mapsto> json_dumps (PDict
              [(''filename'', PStr (basename pdf_path)),
               (''total_pages'', PInt (int (length texts))),
               (''pages'', PList (map (\<lambda>(i, t). PDict
                  [(''page_number'', PInt (int i + 1)),
                   (''content'', (case t of None \<Rightarrow> PNone | Some s \<Rightarrow> PStr s)),
                   (''word_count'', PInt (word_count t)),
                   (''character_count'', PInt (character_count t))])
                 (List.enumerate 0 texts)))])))"
    by (simp add: pdf_data_def)
next
  fix dir stem ext
  assume a: "pdf_path = dir @ ''/'' @ stem @ ''.'' @ ext \<and> output_path = None \<and>
            CHR ''.'' \<notin> set ext \<and> CHR ''/'' \<notin> set ext \<and> CHR ''/'' \<notin> set stem \<and>
            (\<exists>c \<in> set stem. c \<noteq> CHR ''.'')"
  then have "CHR ''/'' \<notin> set (stem @ ''.'' @ ext)"
    by simp
  then have "basename (dir @ ''/'' @ (stem @ ''.'' @ ext)) = stem @ ''.'' @ ext"
    by (rule basename_last_component)
  moreover have "splitext (stem @ ''.'' @ ext) = (stem, ''.'' @ ext)"
    using a by (intro splitext_stem) simp_all
  ultimately show "out = stem @ ''.json''"
    using a assms(3) by simp
qed

theorem convert_pdf_to_json_saves_witness:
  "convert_pdf_to_json sample_env [''/docs/report.v2.pdf'' \<mapsto> ''%PDF-1.4'']
       ''/docs/report.v2.pdf'' None =
     (Inr ''report.v2.json'',
      [''/docs/report.v2.pdf'' \<mapsto> ''%PDF-1.4'',
       ''report.v2.json'' \<mapsto> json_dumps (PDict
          [(''filename'', PStr ''report.v2.pdf''),
           (''total_pages'', PInt 2),
           (''pages'', PList
              [PDict [(''page_number'', PInt 1), (''content'', PStr ''a b c''),
                      (''word_count'', PInt 3), (''character_count'', PInt 5)],
               PDict [(''page_number'', PInt 2), (''content'', PStr []),
                      (''word_count'', PInt 0), (''character_count'', PInt 0)]])])])"
proof -
  let ?fs = "[''/docs/report.v2.pdf'' \<mapsto> ''%PDF-1.4'']"
  have a: "?fs ''/docs/report.v2.pdf'' = Some ''%PDF-1.4''"
    by simp
  have b: "PdfReader sample_env ''%PDF-1.4'' = Inr (map Inr [Some ''a b c'', Some []])"
    by (simp add: sample_env_def sample_reader_def)
  have base: "basename ''/docs/report.v2.pdf'' = ''report.v2.pdf''"
    by (simp add: basename_def)
  have ext: "splitext ''report.v2.pdf'' = (''report.v2'', ''.pdf'')"
    by (simp add: splitext_def rfind_def Let_def)
  have c: "''report.v2.json'' = (case None of
                  None \<Rightarrow> fst (splitext (basename ''/docs/report.v2.pdf'')) @ ''.json''
                | Some p \<Rightarrow> p)"
    by (simp add: base ext)
  have d: "save_fault sample_env ''report.v2.json'' = None"
    by (simp add: sample_env_def)
  have e: "List.enumerate 0 [Some ''a b c'', Some []] = [(0, Some ''a b c''), (1, Some [])]"
    by (simp add: enumerate_eq_zip upt_conv_Cons)
  have w: "word_count (Some ''a b c'') = 3" "character_count (Some ''a b c'') = 5"
    "word_count (Some []) = 0" "character_count (Some []) = 0"
    by (simp_all add: word_count_def character_count_def split_def isspace_def)
  show ?thesis
    using convert_pdf_to_json_saves
        [where fs = "[''/docs/report.v2.pdf'' \<mapsto> ''%PDF-1.4'']"
           and pdf_path = "''/docs/report.v2.pdf''" and output_path = None, OF a b c d]
    by (simp add: base e w)
qed


end
